theory Spec2Isabelle
  imports Main "HOL-Library.Word"
begin

section \<open>Machine types\<close>

text \<open>
  \<open>int32\<close>, \<open>uint32\<close> and \<open>status_t\<close> are 32-bit values; the conversions between
  \<open>int\<close> and \<open>uint32\<close> that the accessors perform keep the bits, so one word type
  serves for all three. File descriptors and the return value of \<open>ioctl\<close> are only
  compared with zero: they are integers.
\<close>

type_synonym int32 = "32 word"
type_synonym uint32 = "32 word"
type_synonym status_t = "32 word"
type_synonym byte = "8 word"
type_synonym sockaddr = "byte list"

abbreviation B_OK :: status_t where
  "B_OK \<equiv> 0"

section \<open>C library routines used by the translation unit\<close>

text \<open>
  A \<open>char\<close> buffer is a list of characters. Read as a C string it ends at its first
  NUL character.
\<close>

definition c_str :: "string \<Rightarrow> string" where
  "c_str buf = takeWhile (\<lambda>c. c \<noteq> CHR 0x00) buf"

text \<open>
  \<open>strlcpy(dst, src, size)\<close>: at most \<open>size - 1\<close> characters of the C string \<open>src\<close>
  are copied and the result is NUL-terminated; with \<open>size = 0\<close> nothing is written.
  The result is the C string \<open>dst\<close> holds afterwards.
\<close>

definition strlcpy :: "string \<Rightarrow> string \<Rightarrow> nat \<Rightarrow> string" where
  "strlcpy dst src n = (if n = 0 then dst else take (n - 1) (c_str src))"

text \<open>
  \<open>memcpy(dst, src, n)\<close>: the first \<open>n\<close> bytes of \<open>dst\<close> are replaced by the first
  \<open>n\<close> bytes of \<open>src\<close>, the rest of \<open>dst\<close> is kept. (In C both buffers must hold
  \<open>n\<close> bytes; the source never checks that.)
\<close>

definition memcpy :: "byte list \<Rightarrow> byte list \<Rightarrow> nat \<Rightarrow> byte list" where
  "memcpy dst src n = take n src @ drop n dst"

section \<open>Kernel request structures\<close>

datatype address_family = AF_INET | AF_LINK

datatype socket_type = SOCK_DGRAM

datatype ioctl_option =
    SIOCGIFNAME | SIOCGIFINDEX | SIOCGIFFLAGS | SIOCSIFFLAGS | SIOCGIFMTU | SIOCSIFMTU
  | SIOCGIFTYPE | SIOCGIFSTATS | SIOCGIFADDR
  | B_SOCKET_GET_ALIAS | B_SOCKET_ADD_ALIAS | B_SOCKET_SET_ALIAS | B_SOCKET_REMOVE_ALIAS
  | B_SOCKET_COUNT_ALIASES

text \<open>
  \<open>struct ifreq\<close> (declared in \<open>net/if.h\<close>): the interface name and the members of
  the request union that this translation unit reads or writes. Every request of the
  source writes at most one member before the call and reads at most one after it, so
  the members are kept as separate fields.
\<close>

record ifreq =
  ifr_name :: string
  ifr_addr :: sockaddr
  ifr_stats :: "byte list"
  ifr_flags :: int32
  ifr_index :: int32
  ifr_mtu :: int32
  ifr_type :: int32
  ifr_count :: int32

text \<open>\<open>struct ifaliasreq\<close> (declared in \<open>net/if.h\<close>).\<close>

record ifaliasreq =
  ifra_name :: string
  ifra_index :: int32
  ifra_flags :: uint32
  ifra_addr :: sockaddr
  ifra_mask :: sockaddr
  ifra_broadaddr :: sockaddr

section \<open>The address classes\<close>

text \<open>
  Modelled from the spec: class \<open>BNetworkAddress\<close> is declared and implemented outside
  this translation unit. The spec describes it as a socket-address block whose length
  is derived from the address's own length field, and as being overwritten from the
  kernel's reply. It is modelled as the bytes of its socket-address storage; the length
  field is the first byte.
\<close>

record BNetworkAddress =
  storage :: sockaddr

definition SockAddr :: "BNetworkAddress \<Rightarrow> sockaddr" where
  "SockAddr a = storage a"

definition Length :: "BNetworkAddress \<Rightarrow> nat" where
  "Length a = (case storage a of [] \<Rightarrow> 0 | len # _ \<Rightarrow> unat len)"

definition BNetworkAddress_SetTo :: "BNetworkAddress \<Rightarrow> sockaddr \<Rightarrow> BNetworkAddress" where
  "BNetworkAddress_SetTo a sa = a\<lparr>storage := sa\<rparr>"

text \<open>
  \<open>BNetworkInterfaceAddress\<close>: the fields of the class; its accessors \<open>Index()\<close>,
  \<open>Flags()\<close>, \<open>Address()\<close>, \<open>Mask()\<close> and \<open>Broadcast()\<close> are the field selectors.
\<close>

record BNetworkInterfaceAddress =
  fIndex :: int32
  fFlags :: uint32
  fAddress :: BNetworkAddress
  fMask :: BNetworkAddress
  fBroadcast :: BNetworkAddress

text \<open>\<open>BNetworkInterface\<close>: the C string held in \<open>fName\<close>.\<close>

record BNetworkInterface =
  fName :: string

section \<open>The operating system\<close>

text \<open>
  Everything the translation unit takes from its platform is a parameter: the constants
  of the headers, the system calls as transitions of a kernel state \<open>'k\<close>, the value of
  \<open>errno\<close>, the indeterminate contents of an uninitialised automatic request
  structure, and the default-constructed \<open>BNetworkAddress\<close>. A system call returns what
  the C function returns: a descriptor or a negative number for \<open>socket\<close>, a status and
  the request buffer as the kernel left it for \<open>ioctl\<close>. The size argument of \<open>ioctl\<close>
  is fixed by the type of the request, hence the two entries.
\<close>

record 'k env =
  IF_NAMESIZE :: nat
  IFF_LINK :: uint32
  os_socket :: "address_family \<Rightarrow> socket_type \<Rightarrow> int \<Rightarrow> 'k \<Rightarrow> int \<times> 'k"
  os_ioctl_ifreq :: "int \<Rightarrow> ioctl_option \<Rightarrow> ifreq \<Rightarrow> 'k \<Rightarrow> int \<times> ifreq \<times> 'k"
  os_ioctl_ifaliasreq :: "int \<Rightarrow> ioctl_option \<Rightarrow> ifaliasreq \<Rightarrow> 'k \<Rightarrow> int \<times> ifaliasreq \<times> 'k"
  os_close :: "int \<Rightarrow> 'k \<Rightarrow> 'k"
  os_errno :: "'k \<Rightarrow> int32"
  auto_ifreq :: "'k \<Rightarrow> ifreq"
  auto_ifaliasreq :: "'k \<Rightarrow> ifaliasreq"
  default_BNetworkAddress :: BNetworkAddress

text \<open>The system calls a run has made, in order, with the arguments they were given.\<close>

datatype syscall =
    Sys_socket address_family socket_type int
  | Sys_ioctl_ifreq int ioctl_option ifreq
  | Sys_ioctl_ifaliasreq int ioctl_option ifaliasreq
  | Sys_close int

record 'k world =
  kernel :: 'k
  trace :: "syscall list"

definition sys_socket ::
  "'k env \<Rightarrow> address_family \<Rightarrow> socket_type \<Rightarrow> int \<Rightarrow> 'k world \<Rightarrow> int \<times> 'k world" where
  "sys_socket env family type protocol w =
     (case os_socket env family type protocol (kernel w) of
        (fd, k) \<Rightarrow> (fd, \<lparr>kernel = k, trace = trace w @ [Sys_socket family type protocol]\<rparr>))"

definition sys_ioctl_ifreq ::
  "'k env \<Rightarrow> int \<Rightarrow> ioctl_option \<Rightarrow> ifreq \<Rightarrow> 'k world \<Rightarrow> int \<times> ifreq \<times> 'k world" where
  "sys_ioctl_ifreq env fd option request w =
     (case os_ioctl_ifreq env fd option request (kernel w) of
        (rc, reply, k) \<Rightarrow>
          (rc, reply, \<lparr>kernel = k, trace = trace w @ [Sys_ioctl_ifreq fd option request]\<rparr>))"

definition sys_ioctl_ifaliasreq ::
  "'k env \<Rightarrow> int \<Rightarrow> ioctl_option \<Rightarrow> ifaliasreq \<Rightarrow> 'k world \<Rightarrow> int \<times> ifaliasreq \<times> 'k world" where
  "sys_ioctl_ifaliasreq env fd option request w =
     (case os_ioctl_ifaliasreq env fd option request (kernel w) of
        (rc, reply, k) \<Rightarrow>
          (rc, reply, \<lparr>kernel = k, trace = trace w @ [Sys_ioctl_ifaliasreq fd option request]\<rparr>))"

text \<open>The destructor of \<open>FileDescriptorCloser\<close>, run when the scope is left.\<close>

definition sys_close :: "'k env \<Rightarrow> int \<Rightarrow> 'k world \<Rightarrow> 'k world" where
  "sys_close env fd w = \<lparr>kernel = os_close env fd (kernel w), trace = trace w @ [Sys_close fd]\<rparr>"

definition errno :: "'k env \<Rightarrow> 'k world \<Rightarrow> int32" where
  "errno env w = os_errno env (kernel w)"

section \<open>The static helpers\<close>

text \<open>
  \<open>do_ifaliasreq(name, option, address, readBack)\<close>. The address record is passed by
  reference, so it is returned with the status. The value returned is read from
  \<open>errno\<close> before the descriptor is closed.
\<close>

definition do_ifaliasreq ::
  "'k env \<Rightarrow> string \<Rightarrow> ioctl_option \<Rightarrow> BNetworkInterfaceAddress \<Rightarrow> bool \<Rightarrow> 'k world
     \<Rightarrow> status_t \<times> BNetworkInterfaceAddress \<times> 'k world" where
  "do_ifaliasreq env name option address readBack w =
     (case sys_socket env AF_INET SOCK_DGRAM 0 w of
        (socket, w1) \<Rightarrow>
          if socket < 0 then (errno env w1, address, w1)
          else
            let r0 = auto_ifaliasreq env (kernel w);
                request = r0\<lparr>
                  ifra_name := strlcpy (ifra_name r0) name (IF_NAMESIZE env),
                  ifra_index := fIndex address,
                  ifra_flags := fFlags address,
                  ifra_addr := memcpy (ifra_addr r0) (SockAddr (fAddress address))
                    (Length (fAddress address)),
                  ifra_mask := memcpy (ifra_mask r0) (SockAddr (fMask address))
                    (Length (fMask address)),
                  ifra_broadaddr := memcpy (ifra_broadaddr r0) (SockAddr (fBroadcast address))
                    (Length (fBroadcast address))\<rparr>
            in case sys_ioctl_ifaliasreq env socket option request w1 of
                 (rc, reply, w2) \<Rightarrow>
                   if rc < 0 then (errno env w2, address, sys_close env socket w2)
                   else if readBack then
                     (B_OK,
                      address\<lparr>
                        fFlags := ifra_flags reply,
                        fAddress := BNetworkAddress_SetTo (fAddress address) (ifra_addr reply),
                        fMask := BNetworkAddress_SetTo (fMask address) (ifra_mask reply),
                        fBroadcast :=
                          BNetworkAddress_SetTo (fBroadcast address) (ifra_broadaddr reply)\<rparr>,
                      sys_close env socket w2)
                   else (B_OK, address, sys_close env socket w2))"

text \<open>The overload for a constant address record: \<open>readBack\<close> takes its default.\<close>

definition do_ifaliasreq_const ::
  "'k env \<Rightarrow> string \<Rightarrow> ioctl_option \<Rightarrow> BNetworkInterfaceAddress \<Rightarrow> 'k world
     \<Rightarrow> status_t \<times> 'k world" where
  "do_ifaliasreq_const env name option address w =
     (case do_ifaliasreq env name option address False w of
        (status, _, w') \<Rightarrow> (status, w'))"

text \<open>\<open>do_request(request, name, option)\<close>; the request is passed by reference.\<close>

definition do_request ::
  "'k env \<Rightarrow> ifreq \<Rightarrow> string \<Rightarrow> ioctl_option \<Rightarrow> 'k world \<Rightarrow> status_t \<times> ifreq \<times> 'k world" where
  "do_request env request name option w =
     (case sys_socket env AF_INET SOCK_DGRAM 0 w of
        (socket, w1) \<Rightarrow>
          if socket < 0 then (errno env w1, request, w1)
          else
            let request1 = request\<lparr>ifr_name := strlcpy (ifr_name request) name (IF_NAMESIZE env)\<rparr>
            in case sys_ioctl_ifreq env socket option request1 w1 of
                 (rc, reply, w2) \<Rightarrow>
                   if rc < 0 then (errno env w2, reply, sys_close env socket w2)
                   else (B_OK, reply, sys_close env socket w2))"

section \<open>BNetworkInterfaceAddress\<close>

definition BNetworkInterfaceAddress_ctor :: "'k env \<Rightarrow> BNetworkInterfaceAddress" where
  "BNetworkInterfaceAddress_ctor env =
     \<lparr>fIndex = 0, fFlags = 0,
      fAddress = default_BNetworkAddress env,
      fMask = default_BNetworkAddress env,
      fBroadcast = default_BNetworkAddress env\<rparr>"

definition BNetworkInterfaceAddress_SetTo ::
  "'k env \<Rightarrow> BNetworkInterfaceAddress \<Rightarrow> BNetworkInterface \<Rightarrow> int32 \<Rightarrow> 'k world
     \<Rightarrow> status_t \<times> BNetworkInterfaceAddress \<times> 'k world" where
  "BNetworkInterfaceAddress_SetTo env this interface index w =
     do_ifaliasreq env (fName interface) B_SOCKET_GET_ALIAS (this\<lparr>fIndex := index\<rparr>) True w"

definition BNetworkInterfaceAddress_SetAddress ::
  "BNetworkInterfaceAddress \<Rightarrow> BNetworkAddress \<Rightarrow> BNetworkInterfaceAddress" where
  "BNetworkInterfaceAddress_SetAddress this address = this\<lparr>fAddress := address\<rparr>"

definition BNetworkInterfaceAddress_SetMask ::
  "BNetworkInterfaceAddress \<Rightarrow> BNetworkAddress \<Rightarrow> BNetworkInterfaceAddress" where
  "BNetworkInterfaceAddress_SetMask this netmask = this\<lparr>fMask := netmask\<rparr>"

definition BNetworkInterfaceAddress_SetBroadcast ::
  "BNetworkInterfaceAddress \<Rightarrow> BNetworkAddress \<Rightarrow> BNetworkInterfaceAddress" where
  "BNetworkInterfaceAddress_SetBroadcast this broadcast = this\<lparr>fBroadcast := broadcast\<rparr>"

definition BNetworkInterfaceAddress_SetFlags ::
  "BNetworkInterfaceAddress \<Rightarrow> uint32 \<Rightarrow> BNetworkInterfaceAddress" where
  "BNetworkInterfaceAddress_SetFlags this flags = this\<lparr>fFlags := flags\<rparr>"

section \<open>BNetworkInterface\<close>

definition Name :: "BNetworkInterface \<Rightarrow> string" where
  "Name this = fName this"

text \<open>\<open>Unset()\<close> writes the terminator at the start of \<open>fName\<close>.\<close>

definition Unset :: "BNetworkInterface \<Rightarrow> BNetworkInterface" where
  "Unset this = this\<lparr>fName := []\<rparr>"

definition SetTo_name :: "'k env \<Rightarrow> BNetworkInterface \<Rightarrow> string \<Rightarrow> BNetworkInterface" where
  "SetTo_name env this name = this\<lparr>fName := strlcpy (fName this) name (IF_NAMESIZE env)\<rparr>"

definition SetTo_index ::
  "'k env \<Rightarrow> BNetworkInterface \<Rightarrow> uint32 \<Rightarrow> 'k world \<Rightarrow> status_t \<times> BNetworkInterface \<times> 'k world" where
  "SetTo_index env this index w =
     (let request = (auto_ifreq env (kernel w))\<lparr>ifr_index := index\<rparr>
      in case do_request env request [] SIOCGIFNAME w of
           (status, reply, w') \<Rightarrow>
             if status \<noteq> B_OK then (status, this, w')
             else (B_OK,
                   this\<lparr>fName := strlcpy (fName this) (ifr_name reply) (IF_NAMESIZE env)\<rparr>, w'))"

text \<open>
  The three constructors. A constructor starts from the indeterminate contents of the
  new object, given as \<open>this\<close>; the one taking an index drops the status.
\<close>

definition BNetworkInterface_ctor :: "BNetworkInterface \<Rightarrow> BNetworkInterface" where
  "BNetworkInterface_ctor this = Unset this"

definition BNetworkInterface_ctor_name ::
  "'k env \<Rightarrow> BNetworkInterface \<Rightarrow> string \<Rightarrow> BNetworkInterface" where
  "BNetworkInterface_ctor_name env this name = SetTo_name env this name"

definition BNetworkInterface_ctor_index ::
  "'k env \<Rightarrow> BNetworkInterface \<Rightarrow> uint32 \<Rightarrow> 'k world \<Rightarrow> BNetworkInterface \<times> 'k world" where
  "BNetworkInterface_ctor_index env this index w =
     (case SetTo_index env this index w of (_, this', w') \<Rightarrow> (this', w'))"

definition Exists :: "'k env \<Rightarrow> BNetworkInterface \<Rightarrow> 'k world \<Rightarrow> bool \<times> 'k world" where
  "Exists env this w =
     (case do_request env (auto_ifreq env (kernel w)) (Name this) SIOCGIFINDEX w of
        (status, _, w') \<Rightarrow> (status = B_OK, w'))"

definition Flags :: "'k env \<Rightarrow> BNetworkInterface \<Rightarrow> 'k world \<Rightarrow> uint32 \<times> 'k world" where
  "Flags env this w =
     (case do_request env (auto_ifreq env (kernel w)) (Name this) SIOCGIFFLAGS w of
        (status, reply, w') \<Rightarrow> if status \<noteq> B_OK then (0, w') else (ifr_flags reply, w'))"

definition MTU :: "'k env \<Rightarrow> BNetworkInterface \<Rightarrow> 'k world \<Rightarrow> uint32 \<times> 'k world" where
  "MTU env this w =
     (case do_request env (auto_ifreq env (kernel w)) (Name this) SIOCGIFMTU w of
        (status, reply, w') \<Rightarrow> if status \<noteq> B_OK then (0, w') else (ifr_mtu reply, w'))"

definition Type :: "'k env \<Rightarrow> BNetworkInterface \<Rightarrow> 'k world \<Rightarrow> uint32 \<times> 'k world" where
  "Type env this w =
     (case do_request env (auto_ifreq env (kernel w)) (Name this) SIOCGIFTYPE w of
        (status, reply, w') \<Rightarrow> if status \<noteq> B_OK then (0, w') else (ifr_type reply, w'))"

text \<open>\<open>GetStats(stats)\<close>: the record passed by reference is returned with the status.\<close>

definition GetStats ::
  "'k env \<Rightarrow> BNetworkInterface \<Rightarrow> byte list \<Rightarrow> 'k world \<Rightarrow> status_t \<times> byte list \<times> 'k world" where
  "GetStats env this stats w =
     (case do_request env (auto_ifreq env (kernel w)) (Name this) SIOCGIFSTATS w of
        (status, reply, w') \<Rightarrow>
          if status \<noteq> B_OK then (status, stats, w') else (B_OK, ifr_stats reply, w'))"

definition HasLink :: "'k env \<Rightarrow> BNetworkInterface \<Rightarrow> 'k world \<Rightarrow> bool \<times> 'k world" where
  "HasLink env this w =
     (case Flags env this w of (flags, w') \<Rightarrow> (and flags (IFF_LINK env) \<noteq> 0, w'))"

definition SetFlags ::
  "'k env \<Rightarrow> BNetworkInterface \<Rightarrow> uint32 \<Rightarrow> 'k world \<Rightarrow> status_t \<times> 'k world" where
  "SetFlags env this flags w =
     (let request = (auto_ifreq env (kernel w))\<lparr>ifr_flags := flags\<rparr>
      in case do_request env request (Name this) SIOCSIFFLAGS w of
           (status, _, w') \<Rightarrow> (status, w'))"

definition SetMTU ::
  "'k env \<Rightarrow> BNetworkInterface \<Rightarrow> uint32 \<Rightarrow> 'k world \<Rightarrow> status_t \<times> 'k world" where
  "SetMTU env this mtu w =
     (let request = (auto_ifreq env (kernel w))\<lparr>ifr_mtu := mtu\<rparr>
      in case do_request env request (Name this) SIOCSIFMTU w of
           (status, _, w') \<Rightarrow> (status, w'))"

definition CountAddresses :: "'k env \<Rightarrow> BNetworkInterface \<Rightarrow> 'k world \<Rightarrow> int32 \<times> 'k world" where
  "CountAddresses env this w =
     (case do_request env (auto_ifreq env (kernel w)) (Name this) B_SOCKET_COUNT_ALIASES w of
        (status, reply, w') \<Rightarrow> if status \<noteq> B_OK then (0, w') else (ifr_count reply, w'))"

definition GetAddressAt ::
  "'k env \<Rightarrow> BNetworkInterface \<Rightarrow> int32 \<Rightarrow> BNetworkInterfaceAddress \<Rightarrow> 'k world
     \<Rightarrow> status_t \<times> BNetworkInterfaceAddress \<times> 'k world" where
  "GetAddressAt env this index address w =
     BNetworkInterfaceAddress_SetTo env address this index w"

definition AddAddress ::
  "'k env \<Rightarrow> BNetworkInterface \<Rightarrow> BNetworkInterfaceAddress \<Rightarrow> 'k world \<Rightarrow> status_t \<times> 'k world" where
  "AddAddress env this address w =
     do_ifaliasreq_const env (Name this) B_SOCKET_ADD_ALIAS address w"

definition SetAddress ::
  "'k env \<Rightarrow> BNetworkInterface \<Rightarrow> BNetworkInterfaceAddress \<Rightarrow> 'k world \<Rightarrow> status_t \<times> 'k world" where
  "SetAddress env this address w =
     do_ifaliasreq_const env (Name this) B_SOCKET_SET_ALIAS address w"

definition RemoveAddress ::
  "'k env \<Rightarrow> BNetworkInterface \<Rightarrow> BNetworkInterfaceAddress \<Rightarrow> 'k world \<Rightarrow> status_t \<times> 'k world" where
  "RemoveAddress env this address w =
     (let r0 = auto_ifreq env (kernel w);
          request = r0\<lparr>ifr_addr := memcpy (ifr_addr r0) (SockAddr (fAddress address))
            (Length (fAddress address))\<rparr>
      in case do_request env request (Name this) B_SOCKET_REMOVE_ALIAS w of
           (status, _, w') \<Rightarrow> (status, w'))"

definition RemoveAddressAt ::
  "'k env \<Rightarrow> BNetworkInterface \<Rightarrow> int32 \<Rightarrow> 'k world \<Rightarrow> status_t \<times> 'k world" where
  "RemoveAddressAt env this index w =
     (case GetAddressAt env this index (BNetworkInterfaceAddress_ctor env) w of
        (status, address, w') \<Rightarrow>
          if status \<noteq> B_OK then (status, w') else RemoveAddress env this address w')"

text \<open>\<open>GetHardwareAddress(address)\<close>; the address is passed by reference.\<close>

definition GetHardwareAddress ::
  "'k env \<Rightarrow> BNetworkInterface \<Rightarrow> BNetworkAddress \<Rightarrow> 'k world
     \<Rightarrow> status_t \<times> BNetworkAddress \<times> 'k world" where
  "GetHardwareAddress env this address w =
     (case sys_socket env AF_LINK SOCK_DGRAM 0 w of
        (socket, w1) \<Rightarrow>
          if socket < 0 then (errno env w1, address, w1)
          else
            let r0 = auto_ifreq env (kernel w);
                request = r0\<lparr>ifr_name := strlcpy (ifr_name r0) (Name this) (IF_NAMESIZE env)\<rparr>
            in case sys_ioctl_ifreq env socket SIOCGIFADDR request w1 of
                 (rc, reply, w2) \<Rightarrow>
                   if rc < 0 then (errno env w2, address, sys_close env socket w2)
                   else (B_OK, BNetworkAddress_SetTo address (ifr_addr reply),
                         sys_close env socket w2))"

section \<open>What the kernel answers\<close>

text \<open>
  The vocabulary of the statements. A request to the kernel takes a throwaway datagram
  socket and one \<open>ioctl\<close>; either call can fail, leaving an error number in \<open>errno\<close>.
\<close>

datatype 'r outcome = Socket_failed int32 | Ioctl_failed int32 | Succeeded 'r

definition kernel_ifreq :: "'k env \<Rightarrow> ioctl_option \<Rightarrow> ifreq \<Rightarrow> 'k \<Rightarrow> ifreq outcome" where
  "kernel_ifreq env option request k =
     (case os_socket env AF_INET SOCK_DGRAM 0 k of
        (fd, k1) \<Rightarrow>
          if fd < 0 then Socket_failed (os_errno env k1)
          else case os_ioctl_ifreq env fd option request k1 of
                 (rc, reply, k2) \<Rightarrow>
                   if rc < 0 then Ioctl_failed (os_errno env k2) else Succeeded reply)"

definition kernel_ifaliasreq ::
  "'k env \<Rightarrow> ioctl_option \<Rightarrow> ifaliasreq \<Rightarrow> 'k \<Rightarrow> ifaliasreq outcome" where
  "kernel_ifaliasreq env option request k =
     (case os_socket env AF_INET SOCK_DGRAM 0 k of
        (fd, k1) \<Rightarrow>
          if fd < 0 then Socket_failed (os_errno env k1)
          else case os_ioctl_ifaliasreq env fd option request k1 of
                 (rc, reply, k2) \<Rightarrow>
                   if rc < 0 then Ioctl_failed (os_errno env k2) else Succeeded reply)"

fun succeeded :: "'r outcome \<Rightarrow> bool" where
  "succeeded (Succeeded _) = True"
| "succeeded _ = False"

text \<open>The status a request reports: the error number of the failed call, or \<open>B_OK\<close>.\<close>

fun status_of :: "'r outcome \<Rightarrow> status_t" where
  "status_of (Socket_failed e) = e"
| "status_of (Ioctl_failed e) = e"
| "status_of (Succeeded _) = B_OK"

text \<open>
  The contract of the system calls on \<open>errno\<close>: a call that fails (a negative return
  value) leaves a non-zero error number.
\<close>

definition errno_set :: "'k env \<Rightarrow> bool" where
  "errno_set env \<longleftrightarrow>
     (\<forall>family type protocol k.
        fst (os_socket env family type protocol k) < 0 \<longrightarrow>
        os_errno env (snd (os_socket env family type protocol k)) \<noteq> 0) \<and>
     (\<forall>fd option request k.
        fst (os_ioctl_ifreq env fd option request k) < 0 \<longrightarrow>
        os_errno env (snd (snd (os_ioctl_ifreq env fd option request k))) \<noteq> 0) \<and>
     (\<forall>fd option request k.
        fst (os_ioctl_ifaliasreq env fd option request k) < 0 \<longrightarrow>
        os_errno env (snd (snd (os_ioctl_ifaliasreq env fd option request k))) \<noteq> 0)"

text \<open>The name a request carries for a handle: what \<open>strlcpy\<close> leaves of it.\<close>

definition wire_name :: "'k env \<Rightarrow> string \<Rightarrow> string" where
  "wire_name env name = take (IF_NAMESIZE env - 1) (c_str name)"

text \<open>The request structure an accessor declares, once \<open>do_request\<close> has named it.\<close>

definition named :: "'k env \<Rightarrow> ifreq \<Rightarrow> string \<Rightarrow> ifreq" where
  "named env request name =
     request\<lparr>ifr_name := strlcpy (ifr_name request) name (IF_NAMESIZE env)\<rparr>"

text \<open>The system calls made between two worlds of a run.\<close>

definition issued :: "'k world \<Rightarrow> 'k world \<Rightarrow> syscall list" where
  "issued w w' = drop (length (trace w)) (trace w')"

fun ioctl_names :: "syscall list \<Rightarrow> string list" where
  "ioctl_names [] = []"
| "ioctl_names (Sys_ioctl_ifreq _ _ request # evs) = ifr_name request # ioctl_names evs"
| "ioctl_names (Sys_ioctl_ifaliasreq _ _ request # evs) = ifra_name request # ioctl_names evs"
| "ioctl_names (_ # evs) = ioctl_names evs"

fun ioctl_options :: "syscall list \<Rightarrow> ioctl_option list" where
  "ioctl_options [] = []"
| "ioctl_options (Sys_ioctl_ifreq _ option _ # evs) = option # ioctl_options evs"
| "ioctl_options (Sys_ioctl_ifaliasreq _ option _ # evs) = option # ioctl_options evs"
| "ioctl_options (_ # evs) = ioctl_options evs"

fun alias_requests :: "syscall list \<Rightarrow> (ioctl_option \<times> ifaliasreq) list" where
  "alias_requests [] = []"
| "alias_requests (Sys_ioctl_ifaliasreq _ option request # evs) =
     (option, request) # alias_requests evs"
| "alias_requests (_ # evs) = alias_requests evs"

section \<open>An example kernel\<close>

text \<open>
  A kernel with one interface, \<open>loop\<close>, of index 1, and a descriptor table that can be
  full. It is the concrete platform at which the theorems are instantiated.
\<close>

record example_kernel =
  ek_errno :: int32
  ek_nofile :: bool
  ek_flags :: int32
  ek_mtu :: int32
  ek_aliases :: "(uint32 \<times> sockaddr \<times> sockaddr \<times> sockaddr) list"

definition example_fail :: "int32 \<Rightarrow> 'r \<Rightarrow> example_kernel \<Rightarrow> int \<times> 'r \<times> example_kernel" where
  "example_fail e request k = (- 1, request, k\<lparr>ek_errno := e\<rparr>)"

definition example_socket ::
  "address_family \<Rightarrow> socket_type \<Rightarrow> int \<Rightarrow> example_kernel \<Rightarrow> int \<times> example_kernel" where
  "example_socket family type protocol k =
     (if ek_nofile k then (- 1, k\<lparr>ek_errno := 24\<rparr>) else (3, k))"

definition example_ioctl_ifreq ::
  "int \<Rightarrow> ioctl_option \<Rightarrow> ifreq \<Rightarrow> example_kernel \<Rightarrow> int \<times> ifreq \<times> example_kernel" where
  "example_ioctl_ifreq fd option r k =
     (if option = SIOCGIFNAME then
        (if ifr_index r = 1 then (0, r\<lparr>ifr_name := ''loop''\<rparr>, k) else example_fail 19 r k)
      else if c_str (ifr_name r) \<noteq> ''loop'' then example_fail 19 r k
      else if option = SIOCGIFINDEX then (0, r\<lparr>ifr_index := 1\<rparr>, k)
      else if option = SIOCGIFFLAGS then (0, r\<lparr>ifr_flags := ek_flags k\<rparr>, k)
      else if option = SIOCSIFFLAGS then (0, r, k\<lparr>ek_flags := ifr_flags r\<rparr>)
      else if option = SIOCGIFMTU then (0, r\<lparr>ifr_mtu := ek_mtu k\<rparr>, k)
      else if option = SIOCSIFMTU then
        (if ifr_mtu r = 0 then example_fail 22 r k else (0, r, k\<lparr>ek_mtu := ifr_mtu r\<rparr>))
      else if option = SIOCGIFTYPE then (0, r\<lparr>ifr_type := 24\<rparr>, k)
      else if option = B_SOCKET_COUNT_ALIASES then
        (0, r\<lparr>ifr_count := of_nat (length (ek_aliases k))\<rparr>, k)
      else if option = B_SOCKET_REMOVE_ALIAS then
        (if ifr_addr r \<in> set (map (\<lambda>a. fst (snd a)) (ek_aliases k))
         then (0, r, k\<lparr>ek_aliases := filter (\<lambda>a. fst (snd a) \<noteq> ifr_addr r) (ek_aliases k)\<rparr>)
         else example_fail 99 r k)
      else example_fail 22 r k)"

definition example_ioctl_ifaliasreq ::
  "int \<Rightarrow> ioctl_option \<Rightarrow> ifaliasreq \<Rightarrow> example_kernel \<Rightarrow> int \<times> ifaliasreq \<times> example_kernel" where
  "example_ioctl_ifaliasreq fd option r k =
     (if c_str (ifra_name r) \<noteq> ''loop'' then example_fail 19 r k
      else if option = B_SOCKET_GET_ALIAS then
        (if unat (ifra_index r) < length (ek_aliases k) then
           (case ek_aliases k ! unat (ifra_index r) of
              (flags, addr, netmask, broadcast) \<Rightarrow>
                (0, r\<lparr>ifra_flags := flags, ifra_addr := addr, ifra_mask := netmask,
                       ifra_broadaddr := broadcast\<rparr>, k))
         else example_fail 22 r k)
      else if option = B_SOCKET_ADD_ALIAS then
        (0, r, k\<lparr>ek_aliases :=
           ek_aliases k @ [(ifra_flags r, ifra_addr r, ifra_mask r, ifra_broadaddr r)]\<rparr>)
      else example_fail 22 r k)"

definition example_auto_ifreq :: ifreq where
  "example_auto_ifreq =
     \<lparr>ifr_name = ''stale'', ifr_addr = [9, 9, 9, 9, 9, 9, 9, 9], ifr_stats = [7, 7],
      ifr_flags = 57005, ifr_index = 57005, ifr_mtu = 57005, ifr_type = 57005,
      ifr_count = 57005\<rparr>"

definition example_auto_ifaliasreq :: ifaliasreq where
  "example_auto_ifaliasreq =
     \<lparr>ifra_name = ''stale'', ifra_index = 57005, ifra_flags = 57005,
      ifra_addr = [9, 9, 9, 9, 9, 9, 9, 9], ifra_mask = [9, 9, 9, 9, 9, 9, 9, 9],
      ifra_broadaddr = [9, 9, 9, 9, 9, 9, 9, 9]\<rparr>"

definition example_env :: "example_kernel env" where
  "example_env =
     \<lparr>IF_NAMESIZE = 32, IFF_LINK = 16,
      os_socket = example_socket,
      os_ioctl_ifreq = example_ioctl_ifreq,
      os_ioctl_ifaliasreq = example_ioctl_ifaliasreq,
      os_close = (\<lambda>fd k. k),
      os_errno = ek_errno,
      auto_ifreq = (\<lambda>k. example_auto_ifreq),
      auto_ifaliasreq = (\<lambda>k. example_auto_ifaliasreq),
      default_BNetworkAddress = \<lparr>storage = []\<rparr>\<rparr>"

text \<open>The address 127.0.0.1 with its mask and broadcast address, eight bytes each.\<close>

definition example_alias :: "uint32 \<times> sockaddr \<times> sockaddr \<times> sockaddr" where
  "example_alias =
     (5, [8, 1, 0, 0, 127, 0, 0, 1], [8, 1, 0, 0, 255, 0, 0, 0], [8, 1, 0, 0, 127, 255, 255, 255])"

definition example_world :: "example_kernel world" where
  "example_world =
     \<lparr>kernel = \<lparr>ek_errno = 0, ek_nofile = False, ek_flags = 73, ek_mtu = 16384,
                ek_aliases = [example_alias]\<rparr>,
      trace = []\<rparr>"

text \<open>The same machine with no descriptor left.\<close>

definition example_world_nofile :: "example_kernel world" where
  "example_world_nofile =
     \<lparr>kernel = \<lparr>ek_errno = 0, ek_nofile = True, ek_flags = 73, ek_mtu = 16384,
                ek_aliases = [example_alias]\<rparr>,
      trace = []\<rparr>"

definition example_loop :: BNetworkInterface where
  "example_loop = \<lparr>fName = ''loop''\<rparr>"

definition example_eth9 :: BNetworkInterface where
  "example_eth9 = \<lparr>fName = ''eth9''\<rparr>"

text \<open>Two address records with the same address and nothing else in common.\<close>

definition example_address :: BNetworkInterfaceAddress where
  "example_address =
     \<lparr>fIndex = 0, fFlags = 5,
      fAddress = \<lparr>storage = [8, 1, 0, 0, 127, 0, 0, 1]\<rparr>,
      fMask = \<lparr>storage = [8, 1, 0, 0, 255, 0, 0, 0]\<rparr>,
      fBroadcast = \<lparr>storage = [8, 1, 0, 0, 127, 255, 255, 255]\<rparr>\<rparr>"

definition example_address_bare :: BNetworkInterfaceAddress where
  "example_address_bare =
     \<lparr>fIndex = 7, fFlags = 0,
      fAddress = \<lparr>storage = [8, 1, 0, 0, 127, 0, 0, 1]\<rparr>,
      fMask = \<lparr>storage = []\<rparr>,
      fBroadcast = \<lparr>storage = []\<rparr>\<rparr>"

section \<open>Facts about the helpers\<close>

lemmas sys_defs =
  sys_socket_def sys_ioctl_ifreq_def sys_ioctl_ifaliasreq_def sys_close_def errno_def

lemmas run_defs =
  do_request_def do_ifaliasreq_def do_ifaliasreq_const_def sys_defs kernel_ifreq_def
  kernel_ifaliasreq_def named_def strlcpy_def c_str_def memcpy_def issued_def wire_name_def
  Name_def SockAddr_def Length_def BNetworkAddress_SetTo_def BNetworkInterfaceAddress_ctor_def
  Let_def

lemmas example_defs =
  example_env_def example_world_def example_world_nofile_def example_loop_def example_eth9_def
  example_socket_def example_ioctl_ifreq_def example_ioctl_ifaliasreq_def example_fail_def
  example_auto_ifreq_def example_auto_ifaliasreq_def example_alias_def
  example_address_def example_address_bare_def

lemma triple_collapse: "x = (fst x, fst (snd x), snd (snd x))"
  by simp

lemma example_errno_set: "errno_set example_env"
  by (simp add: errno_set_def example_env_def example_socket_def example_ioctl_ifreq_def
      example_ioctl_ifaliasreq_def example_fail_def split: prod.splits)

lemma kernel_ifreq_errno:
  "errno_set env \<Longrightarrow> kernel_ifreq env option request k = Socket_failed e \<or>
     kernel_ifreq env option request k = Ioctl_failed e \<Longrightarrow> e \<noteq> 0"
  unfolding errno_set_def kernel_ifreq_def
  by (auto split: prod.splits if_splits) (metis fst_conv snd_conv)+

lemma status_of_ifreq_B_OK:
  "errno_set env \<Longrightarrow>
     status_of (kernel_ifreq env option request k) = B_OK \<longleftrightarrow>
     succeeded (kernel_ifreq env option request k)"
  using kernel_ifreq_errno [of env option request k]
  by (cases "kernel_ifreq env option request k") auto

lemma do_request_status:
  "fst (do_request env request name option w) =
     status_of (kernel_ifreq env option (named env request name) (kernel w))"
  by (simp add: do_request_def kernel_ifreq_def named_def sys_socket_def sys_ioctl_ifreq_def
      sys_close_def errno_def Let_def split: prod.splits)

lemma do_request_reply:
  "kernel_ifreq env option (named env request name) (kernel w) = Succeeded reply \<Longrightarrow>
     fst (snd (do_request env request name option w)) = reply"
  by (auto simp add: do_request_def kernel_ifreq_def named_def sys_socket_def sys_ioctl_ifreq_def
      sys_close_def errno_def Let_def split: prod.splits if_splits)

lemma do_request_issued:
  "issued w (snd (snd (do_request env request name option w))) =
     (let fd = fst (os_socket env AF_INET SOCK_DGRAM 0 (kernel w)) in
      if fd < 0 then [Sys_socket AF_INET SOCK_DGRAM 0]
      else [Sys_socket AF_INET SOCK_DGRAM 0,
            Sys_ioctl_ifreq fd option (named env request name), Sys_close fd])"
  by (auto simp add: do_request_def issued_def named_def sys_socket_def sys_ioctl_ifreq_def
      sys_close_def errno_def Let_def split: prod.splits)

lemma c_str_idem: "c_str (take n (c_str s)) = take n (c_str s)"
  unfolding c_str_def
  by (rule takeWhile_eq_all_conv [THEN iffD2]) (auto dest!: in_set_takeD set_takeWhileD)

lemma wire_name_idem: "wire_name env (wire_name env name) = wire_name env name"
  by (simp add: wire_name_def c_str_idem)

lemma strlcpy_wire_name:
  "0 < IF_NAMESIZE env \<Longrightarrow> strlcpy dst name (IF_NAMESIZE env) = wire_name env name"
  by (simp add: strlcpy_def wire_name_def)

lemma named_name:
  "0 < IF_NAMESIZE env \<Longrightarrow> ifr_name (named env request name) = wire_name env name"
  by (simp add: named_def strlcpy_wire_name)

lemma do_request_names:
  "0 < IF_NAMESIZE env \<Longrightarrow>
     set (ioctl_names (issued w (snd (snd (do_request env request name option w))))) \<subseteq> {wire_name env name}"
  by (simp add: do_request_issued Let_def named_name)

lemma do_request_options:
  "set (ioctl_options (issued w (snd (snd (do_request env request name option w))))) \<subseteq> {option}"
  by (simp add: do_request_issued Let_def)

lemma do_ifaliasreq_names:
  "0 < IF_NAMESIZE env \<Longrightarrow>
     set (ioctl_names (issued w (snd (snd (do_ifaliasreq env name option address readBack w))))) \<subseteq> {wire_name env name}"
  by (auto simp add: do_ifaliasreq_def sys_defs issued_def strlcpy_wire_name Let_def split: prod.splits if_splits)

lemma do_ifaliasreq_options:
  "set (ioctl_options (issued w (snd (snd (do_ifaliasreq env name option address readBack w))))) \<subseteq> {option}"
  by (auto simp add: do_ifaliasreq_def sys_defs issued_def Let_def split: prod.splits if_splits)

lemma do_ifaliasreq_const_names:
  "0 < IF_NAMESIZE env \<Longrightarrow>
     set (ioctl_names (issued w (snd (do_ifaliasreq_const env name option address w)))) \<subseteq> {wire_name env name}"
  using do_ifaliasreq_names [of env w name option address False]
  by (auto simp add: do_ifaliasreq_const_def split: prod.splits)

lemma do_request_trace:
  "trace (snd (snd (do_request env request name option w))) =
     trace w @ issued w (snd (snd (do_request env request name option w)))"
  by (auto simp add: do_request_def issued_def sys_defs Let_def split: prod.splits)

lemma do_ifaliasreq_trace:
  "trace (snd (snd (do_ifaliasreq env name option address readBack w))) =
     trace w @ issued w (snd (snd (do_ifaliasreq env name option address readBack w)))"
  by (auto simp add: do_ifaliasreq_def issued_def sys_defs Let_def split: prod.splits)

lemma issued_trans:
  "trace w1 = trace w @ a \<Longrightarrow> trace w2 = trace w1 @ b \<Longrightarrow>
     issued w w2 = issued w w1 @ issued w1 w2"
  by (simp add: issued_def)

lemma ioctl_names_append: "ioctl_names (xs @ ys) = ioctl_names xs @ ioctl_names ys"
  by (induction xs rule: ioctl_names.induct) simp_all

lemma Exists_names:
  "0 < IF_NAMESIZE env \<Longrightarrow>
     set (ioctl_names (issued w (snd (Exists env this w)))) \<subseteq> {wire_name env (Name this)}"
  using do_request_names [of env w "auto_ifreq env (kernel w)" "Name this" SIOCGIFINDEX]
  by (auto simp add: Exists_def split: prod.splits)

lemma Flags_names:
  "0 < IF_NAMESIZE env \<Longrightarrow>
     set (ioctl_names (issued w (snd (Flags env this w)))) \<subseteq> {wire_name env (Name this)}"
  using do_request_names [of env w "auto_ifreq env (kernel w)" "Name this" SIOCGIFFLAGS]
  by (auto simp add: Flags_def split: prod.splits)

lemma MTU_names:
  "0 < IF_NAMESIZE env \<Longrightarrow>
     set (ioctl_names (issued w (snd (MTU env this w)))) \<subseteq> {wire_name env (Name this)}"
  using do_request_names [of env w "auto_ifreq env (kernel w)" "Name this" SIOCGIFMTU]
  by (auto simp add: MTU_def split: prod.splits)

lemma Type_names:
  "0 < IF_NAMESIZE env \<Longrightarrow>
     set (ioctl_names (issued w (snd (Type env this w)))) \<subseteq> {wire_name env (Name this)}"
  using do_request_names [of env w "auto_ifreq env (kernel w)" "Name this" SIOCGIFTYPE]
  by (auto simp add: Type_def split: prod.splits)

lemma GetStats_names:
  "0 < IF_NAMESIZE env \<Longrightarrow>
     set (ioctl_names (issued w (snd (snd (GetStats env this stats w))))) \<subseteq> {wire_name env (Name this)}"
  using do_request_names [of env w "auto_ifreq env (kernel w)" "Name this" SIOCGIFSTATS]
  by (auto simp add: GetStats_def split: prod.splits)

lemma HasLink_names:
  "0 < IF_NAMESIZE env \<Longrightarrow>
     set (ioctl_names (issued w (snd (HasLink env this w)))) \<subseteq> {wire_name env (Name this)}"
  using Flags_names [of env w this]
  by (auto simp add: HasLink_def split: prod.splits)

lemma SetFlags_names:
  "0 < IF_NAMESIZE env \<Longrightarrow>
     set (ioctl_names (issued w (snd (SetFlags env this flags w)))) \<subseteq> {wire_name env (Name this)}"
  using do_request_names [of env w "(auto_ifreq env (kernel w))\<lparr>ifr_flags := flags\<rparr>" "Name this" SIOCSIFFLAGS]
  by (auto simp add: SetFlags_def split: prod.splits)

lemma SetMTU_names:
  "0 < IF_NAMESIZE env \<Longrightarrow>
     set (ioctl_names (issued w (snd (SetMTU env this mtu w)))) \<subseteq> {wire_name env (Name this)}"
  using do_request_names [of env w "(auto_ifreq env (kernel w))\<lparr>ifr_mtu := mtu\<rparr>" "Name this" SIOCSIFMTU]
  by (auto simp add: SetMTU_def split: prod.splits)

lemma CountAddresses_names:
  "0 < IF_NAMESIZE env \<Longrightarrow>
     set (ioctl_names (issued w (snd (CountAddresses env this w)))) \<subseteq> {wire_name env (Name this)}"
  using do_request_names [of env w "auto_ifreq env (kernel w)" "Name this" B_SOCKET_COUNT_ALIASES]
  by (auto simp add: CountAddresses_def split: prod.splits)

lemma GetAddressAt_names:
  "0 < IF_NAMESIZE env \<Longrightarrow>
     set (ioctl_names (issued w (snd (snd (GetAddressAt env this index address w))))) \<subseteq> {wire_name env (Name this)}"
  using do_ifaliasreq_names [of env w "fName this" B_SOCKET_GET_ALIAS "address\<lparr>fIndex := index\<rparr>" True]
  by (simp add: GetAddressAt_def BNetworkInterfaceAddress_SetTo_def Name_def)

lemma AddAddress_names:
  "0 < IF_NAMESIZE env \<Longrightarrow>
     set (ioctl_names (issued w (snd (AddAddress env this address w)))) \<subseteq> {wire_name env (Name this)}"
  by (simp add: AddAddress_def do_ifaliasreq_const_names)

lemma SetAddress_names:
  "0 < IF_NAMESIZE env \<Longrightarrow>
     set (ioctl_names (issued w (snd (SetAddress env this address w)))) \<subseteq> {wire_name env (Name this)}"
  by (simp add: SetAddress_def do_ifaliasreq_const_names)

lemma RemoveAddress_names:
  "0 < IF_NAMESIZE env \<Longrightarrow>
     set (ioctl_names (issued w (snd (RemoveAddress env this address w)))) \<subseteq> {wire_name env (Name this)}"
  using do_request_names [of env w
      "(auto_ifreq env (kernel w))\<lparr>ifr_addr := memcpy (ifr_addr (auto_ifreq env (kernel w))) (SockAddr (fAddress address)) (Length (fAddress address))\<rparr>"
      "Name this" B_SOCKET_REMOVE_ALIAS]
  by (auto simp add: RemoveAddress_def Let_def split: prod.splits)

lemma RemoveAddress_trace:
  "\<exists>evs. trace (snd (RemoveAddress env this address w)) = trace w @ evs"
  using do_request_trace [of env
      "(auto_ifreq env (kernel w))\<lparr>ifr_addr := memcpy (ifr_addr (auto_ifreq env (kernel w))) (SockAddr (fAddress address)) (Length (fAddress address))\<rparr>"
      "Name this" B_SOCKET_REMOVE_ALIAS w]
  by (auto simp add: RemoveAddress_def Let_def split: prod.splits)

lemma GetAddressAt_trace:
  "\<exists>evs. trace (snd (snd (GetAddressAt env this index address w))) = trace w @ evs"
  using do_ifaliasreq_trace [of env "fName this" B_SOCKET_GET_ALIAS "address\<lparr>fIndex := index\<rparr>" True w]
  by (auto simp add: GetAddressAt_def BNetworkInterfaceAddress_SetTo_def)

lemma RemoveAddressAt_names:
  assumes "0 < IF_NAMESIZE env"
  shows "set (ioctl_names (issued w (snd (RemoveAddressAt env this index w)))) \<subseteq> {wire_name env (Name this)}"
proof -
  obtain status address w1 where
    g: "GetAddressAt env this index (BNetworkInterfaceAddress_ctor env) w = (status, address, w1)"
    by (metis prod_cases3)
  have n1: "set (ioctl_names (issued w w1)) \<subseteq> {wire_name env (Name this)}"
    using GetAddressAt_names [OF assms, of w this index "BNetworkInterfaceAddress_ctor env"] g by simp
  show ?thesis
  proof (cases "status = B_OK")
    case False
    with g n1 show ?thesis by (simp add: RemoveAddressAt_def)
  next
    case True
    obtain a where a: "trace w1 = trace w @ a"
      using GetAddressAt_trace [of env this index "BNetworkInterfaceAddress_ctor env" w] g by auto
    obtain b where b: "trace (snd (RemoveAddress env this address w1)) = trace w1 @ b"
      using RemoveAddress_trace by blast
    have "issued w (snd (RemoveAddress env this address w1)) =
        issued w w1 @ issued w1 (snd (RemoveAddress env this address w1))"
      by (rule issued_trans [OF a b])
    with n1 RemoveAddress_names [OF assms, of w1 this address] True g show ?thesis
      by (simp add: RemoveAddressAt_def ioctl_names_append)
  qed
qed

lemma GetHardwareAddress_names:
  "0 < IF_NAMESIZE env \<Longrightarrow>
     set (ioctl_names (issued w (snd (snd (GetHardwareAddress env this address w))))) \<subseteq> {wire_name env (Name this)}"
  by (auto simp add: GetHardwareAddress_def sys_defs issued_def strlcpy_wire_name Let_def
      split: prod.splits if_splits)

lemma SetTo_name_Name:
  "0 < IF_NAMESIZE env \<Longrightarrow> Name (SetTo_name env this name) = wire_name env name"
  by (simp add: SetTo_name_def Name_def strlcpy_wire_name)

lemma Exists_options:
  "set (ioctl_options (issued w (snd (Exists env this w)))) \<subseteq> {SIOCGIFINDEX}"
  using do_request_options [of w env "auto_ifreq env (kernel w)" "Name this" SIOCGIFINDEX]
  by (auto simp add: Exists_def split: prod.splits)

section \<open>The read accessors\<close>

text \<open>
  Claim C1. \<open>Flags()\<close>, \<open>MTU()\<close> and \<open>Type()\<close> return the value the kernel left in the
  request when the query succeeds, and zero when the socket cannot be created or the
  \<open>ioctl\<close> fails, whatever the error number was. The system calls are assumed to keep
  their contract on \<open>errno\<close> (\<open>errno_set\<close>): the accessors recognise a failure by a
  non-zero status only.
\<close>

theorem read_accessors_zero_on_error:
  assumes "errno_set env"
  shows
   "fst (Flags env this w) =
      (case kernel_ifreq env SIOCGIFFLAGS
              (named env (auto_ifreq env (kernel w)) (Name this)) (kernel w) of
         Succeeded reply \<Rightarrow> ifr_flags reply | Socket_failed e \<Rightarrow> 0 | Ioctl_failed e \<Rightarrow> 0) \<and>
    fst (MTU env this w) =
      (case kernel_ifreq env SIOCGIFMTU
              (named env (auto_ifreq env (kernel w)) (Name this)) (kernel w) of
         Succeeded reply \<Rightarrow> ifr_mtu reply | Socket_failed e \<Rightarrow> 0 | Ioctl_failed e \<Rightarrow> 0) \<and>
    fst (Type env this w) =
      (case kernel_ifreq env SIOCGIFTYPE
              (named env (auto_ifreq env (kernel w)) (Name this)) (kernel w) of
         Succeeded reply \<Rightarrow> ifr_type reply | Socket_failed e \<Rightarrow> 0 | Ioctl_failed e \<Rightarrow> 0)"
proof -
  have accessor:
    "(case do_request env r n option w of
        (status, reply, w') \<Rightarrow> if status \<noteq> B_OK then (0, w') else (field reply, w')) = (v, w1) \<Longrightarrow>
     v = (case kernel_ifreq env option (named env r n) (kernel w) of
            Succeeded reply \<Rightarrow> field reply | Socket_failed e \<Rightarrow> 0 | Ioctl_failed e \<Rightarrow> 0)"
    for r n option v w1 and field :: "ifreq \<Rightarrow> uint32"
    using do_request_status [of env r n option w] do_request_reply [of env option r n w]
      kernel_ifreq_errno [OF assms, of option "named env r n" "kernel w"]
    by (cases "kernel_ifreq env option (named env r n) (kernel w)")
      (auto split: prod.splits if_splits)
  show ?thesis
    unfolding Flags_def MTU_def Type_def
    by (intro conjI accessor [OF surjective_pairing])
qed

theorem read_accessors_zero_on_error_witness:
  "errno_set example_env \<and>
   fst (Flags example_env example_loop example_world) = 73 \<and>
   fst (MTU example_env example_loop example_world) = 16384 \<and>
   fst (Type example_env example_loop example_world) = 24 \<and>
   fst (Flags example_env example_eth9 example_world) = 0 \<and>
   fst (MTU example_env example_eth9 example_world) = 0 \<and>
   fst (Type example_env example_eth9 example_world) = 0 \<and>
   fst (Flags example_env example_loop example_world_nofile) = 0 \<and>
   fst (MTU example_env example_loop example_world_nofile) = 0 \<and>
   fst (Type example_env example_loop example_world_nofile) = 0"
  using read_accessors_zero_on_error [OF example_errno_set, of example_loop example_world]
    read_accessors_zero_on_error [OF example_errno_set, of example_eth9 example_world]
    read_accessors_zero_on_error [OF example_errno_set, of example_loop example_world_nofile]
  by (intro conjI example_errno_set) (simp_all add: example_defs run_defs)

section \<open>The setters\<close>

text \<open>
  Claim C2. \<open>SetFlags(flags)\<close> and \<open>SetMTU(mtu)\<close> return the error number of the
  failed call (socket creation or \<open>ioctl\<close>) as it is, and \<open>B_OK\<close> when the request
  succeeds. Given the contract on \<open>errno\<close>, the status is \<open>B_OK\<close> exactly when the
  request succeeded.
\<close>

theorem setters_return_errno:
  "fst (SetFlags env this flags w) =
     status_of (kernel_ifreq env SIOCSIFFLAGS
       (named env ((auto_ifreq env (kernel w))\<lparr>ifr_flags := flags\<rparr>) (Name this)) (kernel w)) \<and>
   fst (SetMTU env this mtu w) =
     status_of (kernel_ifreq env SIOCSIFMTU
       (named env ((auto_ifreq env (kernel w))\<lparr>ifr_mtu := mtu\<rparr>) (Name this)) (kernel w)) \<and>
   (errno_set env \<longrightarrow>
      (fst (SetFlags env this flags w) = B_OK \<longleftrightarrow>
         succeeded (kernel_ifreq env SIOCSIFFLAGS
           (named env ((auto_ifreq env (kernel w))\<lparr>ifr_flags := flags\<rparr>) (Name this))
           (kernel w))) \<and>
      (fst (SetMTU env this mtu w) = B_OK \<longleftrightarrow>
         succeeded (kernel_ifreq env SIOCSIFMTU
           (named env ((auto_ifreq env (kernel w))\<lparr>ifr_mtu := mtu\<rparr>) (Name this))
           (kernel w))))"
proof -
  have setter: "fst (case do_request env r n option w of (status, _, w') \<Rightarrow> (status, w')) =
      status_of (kernel_ifreq env option (named env r n) (kernel w))" for r n option
    using do_request_status [of env r n option w] by (auto split: prod.splits)
  show ?thesis
    unfolding SetFlags_def SetMTU_def Let_def setter
    by (simp add: status_of_ifreq_B_OK)
qed

theorem setters_return_errno_witness:
  "errno_set example_env \<and>
   fst (SetFlags example_env example_loop 65 example_world) = B_OK \<and>
   fst (SetMTU example_env example_loop 1500 example_world) = B_OK \<and>
   fst (SetMTU example_env example_loop 0 example_world) = 22 \<and>
   fst (SetFlags example_env example_eth9 65 example_world) = 19 \<and>
   fst (SetFlags example_env example_loop 65 example_world_nofile) = 24 \<and>
   fst (SetMTU example_env example_loop 1500 example_world_nofile) = 24"
  using setters_return_errno [of example_env example_loop 65 example_world 1500]
    setters_return_errno [of example_env example_loop 65 example_world 0]
    setters_return_errno [of example_env example_eth9 65 example_world 0]
    setters_return_errno [of example_env example_loop 65 example_world_nofile 1500]
  by (intro conjI example_errno_set) (simp_all add: example_defs run_defs)

section \<open>Removing an address by index\<close>

text \<open>
  Claim C3. \<open>RemoveAddressAt(index)\<close> is \<open>GetAddressAt(index, address)\<close> on a freshly
  constructed address record followed by \<open>RemoveAddress(address)\<close>: a status other than
  \<open>B_OK\<close> from the first call is returned at once, and no removal request has been
  issued; otherwise the result is that of \<open>RemoveAddress\<close>, run in the world the first
  call left.
\<close>

theorem RemoveAddressAt_composition:
  assumes "GetAddressAt env this index (BNetworkInterfaceAddress_ctor env) w = (status, address, w1)"
  shows
   "(status \<noteq> B_OK \<longrightarrow>
       RemoveAddressAt env this index w = (status, w1) \<and>
       B_SOCKET_REMOVE_ALIAS \<notin> set (ioctl_options (issued w w1))) \<and>
    (status = B_OK \<longrightarrow>
       RemoveAddressAt env this index w = RemoveAddress env this address w1)"
proof -
  have "set (ioctl_options (issued w w1)) \<subseteq> {B_SOCKET_GET_ALIAS}"
    using assms do_ifaliasreq_options [of w env "fName this" B_SOCKET_GET_ALIAS
        "(BNetworkInterfaceAddress_ctor env)\<lparr>fIndex := index\<rparr>" True]
    by (simp add: GetAddressAt_def BNetworkInterfaceAddress_SetTo_def)
  then have "B_SOCKET_REMOVE_ALIAS \<notin> set (ioctl_options (issued w w1))"
    by auto
  then show ?thesis
    using assms by (simp add: RemoveAddressAt_def)
qed

theorem RemoveAddressAt_composition_witness:
  "fst (GetAddressAt example_env example_loop 1 (BNetworkInterfaceAddress_ctor example_env)
          example_world) = 22 \<and>
   fst (RemoveAddressAt example_env example_loop 1 example_world) = 22 \<and>
   B_SOCKET_REMOVE_ALIAS \<notin>
     set (ioctl_options (issued example_world
       (snd (RemoveAddressAt example_env example_loop 1 example_world)))) \<and>
   fst (GetAddressAt example_env example_loop 0 (BNetworkInterfaceAddress_ctor example_env)
          example_world) = B_OK \<and>
   fst (RemoveAddressAt example_env example_loop 0 example_world) = B_OK \<and>
   ek_aliases (kernel (snd (RemoveAddressAt example_env example_loop 0 example_world))) = []"
  using RemoveAddressAt_composition [of example_env example_loop 1 example_world,
      OF triple_collapse]
    RemoveAddressAt_composition [of example_env example_loop 0 example_world,
      OF triple_collapse]
  by (simp add: example_defs run_defs GetAddressAt_def BNetworkInterfaceAddress_SetTo_def
      RemoveAddress_def)

section \<open>Querying an alias\<close>

text \<open>
  Claim C4, as the code has it. \<open>BNetworkInterfaceAddress::SetTo(interface, index)\<close>
  first creates a socket. When that fails it issues no \<open>ioctl\<close> and returns the error
  number. When it succeeds, exactly one \<open>ioctl\<close> is issued: the alias query, carrying
  the index and the interface name (as \<open>strlcpy\<close> bounds it); and when the kernel
  accepts the query the status is \<open>B_OK\<close> and the flags, address, mask and broadcast
  fields hold what the kernel wrote into the request structure.
\<close>

theorem SetTo_alias_query:
  assumes "BNetworkInterfaceAddress_SetTo env this interface index w = (status, this', w')"
  shows
   "(fst (os_socket env AF_INET SOCK_DGRAM 0 (kernel w)) < 0 \<longrightarrow>
       ioctl_options (issued w w') = [] \<and>
       status = os_errno env (snd (os_socket env AF_INET SOCK_DGRAM 0 (kernel w)))) \<and>
    (0 \<le> fst (os_socket env AF_INET SOCK_DGRAM 0 (kernel w)) \<longrightarrow>
       (\<exists>request.
          alias_requests (issued w w') = [(B_SOCKET_GET_ALIAS, request)] \<and>
          ioctl_options (issued w w') = [B_SOCKET_GET_ALIAS] \<and>
          ifra_index request = index \<and>
          (0 < IF_NAMESIZE env \<longrightarrow> ifra_name request = wire_name env (Name interface)) \<and>
          (\<forall>reply.
             kernel_ifaliasreq env B_SOCKET_GET_ALIAS request (kernel w) = Succeeded reply \<longrightarrow>
             status = B_OK \<and> fFlags this' = ifra_flags reply \<and>
             fAddress this' = BNetworkAddress_SetTo (fAddress this) (ifra_addr reply) \<and>
             fMask this' = BNetworkAddress_SetTo (fMask this) (ifra_mask reply) \<and>
             fBroadcast this' = BNetworkAddress_SetTo (fBroadcast this) (ifra_broadaddr reply) \<and>
             SockAddr (fAddress this') = ifra_addr reply \<and>
             SockAddr (fMask this') = ifra_mask reply \<and>
             SockAddr (fBroadcast this') = ifra_broadaddr reply)))"
  using assms
  by (auto simp add: BNetworkInterfaceAddress_SetTo_def do_ifaliasreq_def sys_defs issued_def
      kernel_ifaliasreq_def wire_name_def strlcpy_def Name_def SockAddr_def
      BNetworkAddress_SetTo_def Let_def split: prod.splits if_splits)

theorem SetTo_alias_query_witness:
  "0 \<le> fst (os_socket example_env AF_INET SOCK_DGRAM 0 (kernel example_world)) \<and>
   0 < IF_NAMESIZE example_env \<and>
   map (\<lambda>(option, request). (option, ifra_name request, ifra_index request))
     (alias_requests (issued example_world
        (snd (snd (BNetworkInterfaceAddress_SetTo example_env example_address_bare example_loop 0
           example_world))))) = [(B_SOCKET_GET_ALIAS, ''loop'', 0)] \<and>
   fst (BNetworkInterfaceAddress_SetTo example_env example_address_bare example_loop 0
          example_world) = B_OK \<and>
   fst (snd (BNetworkInterfaceAddress_SetTo example_env example_address_bare example_loop 0
          example_world)) = example_address \<and>
   fst (os_socket example_env AF_INET SOCK_DGRAM 0 (kernel example_world_nofile)) < 0 \<and>
   ioctl_options (issued example_world_nofile
     (snd (snd (BNetworkInterfaceAddress_SetTo example_env example_address_bare example_loop 0
        example_world_nofile)))) = [] \<and>
   fst (BNetworkInterfaceAddress_SetTo example_env example_address_bare example_loop 0
          example_world_nofile) = 24"
  using SetTo_alias_query [of example_env example_address_bare example_loop 0 example_world,
      OF triple_collapse]
    SetTo_alias_query [of example_env example_address_bare example_loop 0
      example_world_nofile, OF triple_collapse]
  by (intro conjI) (simp_all add: example_defs run_defs BNetworkInterfaceAddress_SetTo_def)

text \<open>
  With no descriptor left, \<open>SetTo\<close> returns without any alias query having reached the
  kernel.
\<close>

theorem SetTo_alias_query_counterexample:
  "\<not> (\<exists>fd request. Sys_ioctl_ifaliasreq fd B_SOCKET_GET_ALIAS request \<in>
        set (trace (snd (snd (BNetworkInterfaceAddress_SetTo example_env example_address_bare
          example_loop 0 example_world_nofile)))))"
  by (simp add: example_defs run_defs BNetworkInterfaceAddress_SetTo_def)

section \<open>Counting the aliases\<close>

text \<open>
  Claim C5. \<open>CountAddresses()\<close> returns the count the kernel reports when the query
  succeeds and 0 when the socket cannot be created or the \<open>ioctl\<close> fails (given the
  contract on \<open>errno\<close>); a failed query and an interface without aliases both give 0.
\<close>

theorem CountAddresses_zero_on_error:
  assumes "errno_set env"
  shows
   "fst (CountAddresses env this w) =
      (case kernel_ifreq env B_SOCKET_COUNT_ALIASES
              (named env (auto_ifreq env (kernel w)) (Name this)) (kernel w) of
         Succeeded reply \<Rightarrow> ifr_count reply | Socket_failed e \<Rightarrow> 0 | Ioctl_failed e \<Rightarrow> 0)"
  using do_request_status [of env "auto_ifreq env (kernel w)" "Name this" B_SOCKET_COUNT_ALIASES w]
    do_request_reply [of env B_SOCKET_COUNT_ALIASES "auto_ifreq env (kernel w)" "Name this" w]
    kernel_ifreq_errno [OF assms, of B_SOCKET_COUNT_ALIASES
      "named env (auto_ifreq env (kernel w)) (Name this)" "kernel w"]
  unfolding CountAddresses_def
  by (cases "kernel_ifreq env B_SOCKET_COUNT_ALIASES
        (named env (auto_ifreq env (kernel w)) (Name this)) (kernel w)")
    (auto split: prod.splits if_splits)

theorem CountAddresses_zero_on_error_witness:
  "errno_set example_env \<and>
   fst (CountAddresses example_env example_loop example_world) = 1 \<and>
   fst (CountAddresses example_env example_eth9 example_world) = 0 \<and>
   fst (CountAddresses example_env example_loop example_world_nofile) = 0 \<and>
   fst (CountAddresses example_env example_loop
          (snd (RemoveAddress example_env example_loop example_address example_world))) = 0"
  using CountAddresses_zero_on_error [OF example_errno_set, of example_loop example_world]
    CountAddresses_zero_on_error [OF example_errno_set, of example_eth9 example_world]
    CountAddresses_zero_on_error [OF example_errno_set, of example_loop example_world_nofile]
    CountAddresses_zero_on_error [OF example_errno_set, of example_loop
      "snd (RemoveAddress example_env example_loop example_address example_world)"]
  by (intro conjI example_errno_set) (simp_all add: example_defs run_defs RemoveAddress_def)

section \<open>Removing an address\<close>



section \<open>Naming a handle\<close>

text \<open>
  Claim C7. \<open>SetTo(name)\<close>, and the constructor that calls it, store the name cut to at
  most \<open>IF_NAMESIZE - 1\<close> characters (the terminator takes the last place); there is no
  error to report, a name that fits is stored whole, and every later operation on the
  handle that reads the name sends that stored name to the kernel (\<open>SetTo(index)\<close>,
  which replaces the name, sends none). \<open>IF_NAMESIZE\<close>, the size of the name array, is
  positive.
\<close>

theorem SetTo_name_truncates:
  assumes "0 < IF_NAMESIZE env"
    and "h = SetTo_name env this name"
    and "n = take (IF_NAMESIZE env - 1) (c_str name)"
  shows
   "Name h = n \<and>
    Name (BNetworkInterface_ctor_name env this name) = n \<and>
    length n < IF_NAMESIZE env \<and>
    (length (c_str name) < IF_NAMESIZE env \<longrightarrow> n = c_str name) \<and>
    set (ioctl_names (issued w (snd (Exists env h w)))) \<subseteq> {n} \<and>
    set (ioctl_names (issued w (snd (Flags env h w)))) \<subseteq> {n} \<and>
    set (ioctl_names (issued w (snd (MTU env h w)))) \<subseteq> {n} \<and>
    set (ioctl_names (issued w (snd (Type env h w)))) \<subseteq> {n} \<and>
    set (ioctl_names (issued w (snd (snd (GetStats env h stats w))))) \<subseteq> {n} \<and>
    set (ioctl_names (issued w (snd (HasLink env h w)))) \<subseteq> {n} \<and>
    set (ioctl_names (issued w (snd (SetFlags env h flags w)))) \<subseteq> {n} \<and>
    set (ioctl_names (issued w (snd (SetMTU env h mtu w)))) \<subseteq> {n} \<and>
    set (ioctl_names (issued w (snd (CountAddresses env h w)))) \<subseteq> {n} \<and>
    set (ioctl_names (issued w (snd (snd (GetAddressAt env h index address w))))) \<subseteq> {n} \<and>
    set (ioctl_names (issued w (snd (AddAddress env h address w)))) \<subseteq> {n} \<and>
    set (ioctl_names (issued w (snd (SetAddress env h address w)))) \<subseteq> {n} \<and>
    set (ioctl_names (issued w (snd (RemoveAddress env h address w)))) \<subseteq> {n} \<and>
    set (ioctl_names (issued w (snd (RemoveAddressAt env h index w)))) \<subseteq> {n} \<and>
    set (ioctl_names (issued w (snd (snd (GetHardwareAddress env h hw w))))) \<subseteq> {n}"
proof -
  have n: "n = wire_name env name"
    by (simp add: assms(3) wire_name_def)
  have h: "Name h = n"
    by (simp add: assms(1,2) n SetTo_name_Name)
  have w: "wire_name env (Name h) = n"
    by (simp add: h) (simp add: n wire_name_idem)
  have len: "length n < IF_NAMESIZE env"
    using assms(1) by (simp add: assms(3))
  have fits: "length (c_str name) < IF_NAMESIZE env \<longrightarrow> n = c_str name"
    by (simp add: assms(3))
  note ops = Exists_names Flags_names MTU_names Type_names GetStats_names HasLink_names
    SetFlags_names SetMTU_names CountAddresses_names GetAddressAt_names AddAddress_names
    SetAddress_names RemoveAddress_names RemoveAddressAt_names GetHardwareAddress_names
  show ?thesis
    apply (intro conjI)
    apply (rule h)
    apply (simp add: BNetworkInterface_ctor_name_def h [unfolded assms(2)])
    apply (rule len)
    apply (rule fits)
    apply (rule ops [OF assms(1), of w h, unfolded w])+
    done
qed

theorem SetTo_name_truncates_witness:
  "0 < IF_NAMESIZE example_env \<and>
   Name (SetTo_name example_env example_eth9
     ''a_very_long_interface_name_that_exceeds_the_limit'') =
     ''a_very_long_interface_name_that'' \<and>
   length ''a_very_long_interface_name_that'' < IF_NAMESIZE example_env \<and>
   Name (SetTo_name example_env example_eth9 ''loop'') = ''loop'' \<and>
   ioctl_names (issued example_world (snd (Flags example_env
     (SetTo_name example_env example_eth9 ''a_very_long_interface_name_that_exceeds_the_limit'')
     example_world))) = [''a_very_long_interface_name_that'']"
proof -
  have pos: "0 < IF_NAMESIZE example_env"
    by (simp add: example_env_def)
  have sent: "ioctl_names (issued example_world (snd (Flags example_env
     (SetTo_name example_env example_eth9 ''a_very_long_interface_name_that_exceeds_the_limit'')
     example_world))) = [''a_very_long_interface_name_that'']"
    by (simp add: example_defs run_defs Flags_def SetTo_name_def)
  show ?thesis
    using SetTo_name_truncates [OF pos refl refl, of example_eth9
        "''a_very_long_interface_name_that_exceeds_the_limit''" example_world]
      SetTo_name_truncates [OF pos refl refl, of example_eth9 "''loop''" example_world]
      pos sent
    by (simp add: example_env_def c_str_def)
qed

section \<open>Existence\<close>

text \<open>
  Claim C8. \<open>Exists()\<close> is true exactly when the kernel's lookup of the handle's name
  succeeds: the only \<open>ioctl\<close> it issues is the get-index request, under the handle's
  name, and a failure of the socket creation or of the \<open>ioctl\<close> gives false (given
  the contract on \<open>errno\<close>).
\<close>

theorem Exists_iff_lookup_succeeds:
  assumes "errno_set env"
  shows
   "(fst (Exists env this w) \<longleftrightarrow>
       succeeded (kernel_ifreq env SIOCGIFINDEX
         (named env (auto_ifreq env (kernel w)) (Name this)) (kernel w))) \<and>
    set (ioctl_options (issued w (snd (Exists env this w)))) \<subseteq> {SIOCGIFINDEX} \<and>
    (0 < IF_NAMESIZE env \<longrightarrow>
       ifr_name (named env (auto_ifreq env (kernel w)) (Name this)) = wire_name env (Name this) \<and>
       set (ioctl_names (issued w (snd (Exists env this w)))) \<subseteq> {wire_name env (Name this)})"
proof -
  have "fst (Exists env this w) \<longleftrightarrow>
      succeeded (kernel_ifreq env SIOCGIFINDEX
        (named env (auto_ifreq env (kernel w)) (Name this)) (kernel w))"
    using do_request_status [of env "auto_ifreq env (kernel w)" "Name this" SIOCGIFINDEX w]
    unfolding Exists_def
    by (auto simp add: status_of_ifreq_B_OK [OF assms] split: prod.splits)
  then show ?thesis
    using Exists_options [of w env this] Exists_names [of env w this]
    by (simp add: named_name)
qed

theorem Exists_iff_lookup_succeeds_witness:
  "errno_set example_env \<and>
   fst (Exists example_env example_loop example_world) \<and>
   \<not> fst (Exists example_env example_eth9 example_world) \<and>
   \<not> fst (Exists example_env example_loop example_world_nofile)"
  using Exists_iff_lookup_succeeds [OF example_errno_set, of example_loop example_world]
    Exists_iff_lookup_succeeds [OF example_errno_set, of example_eth9 example_world]
    Exists_iff_lookup_succeeds [OF example_errno_set, of example_loop example_world_nofile]
  by (intro conjI example_errno_set) (simp_all add: example_defs run_defs)

section \<open>Naming a handle by index\<close>

text \<open>
  Claim C9. When the kernel's lookup of the index fails in \<open>SetTo(index)\<close> (the socket
  cannot be created or the \<open>ioctl\<close> fails), the handle is returned as it was and the
  status is the error number of the failed call, which is not \<open>B_OK\<close> (given the contract
  on \<open>errno\<close>).
\<close>

theorem SetTo_index_failure_keeps_name:
  assumes "errno_set env"
    and "\<not> succeeded (kernel_ifreq env SIOCGIFNAME
           (named env ((auto_ifreq env (kernel w))\<lparr>ifr_index := index\<rparr>) []) (kernel w))"
  shows
   "fst (SetTo_index env this index w) =
      status_of (kernel_ifreq env SIOCGIFNAME
        (named env ((auto_ifreq env (kernel w))\<lparr>ifr_index := index\<rparr>) []) (kernel w)) \<and>
    fst (SetTo_index env this index w) \<noteq> B_OK \<and>
    fst (snd (SetTo_index env this index w)) = this \<and>
    Name (fst (snd (SetTo_index env this index w))) = Name this"
  using do_request_status
      [of env "(auto_ifreq env (kernel w))\<lparr>ifr_index := index\<rparr>" "[]" SIOCGIFNAME w]
    status_of_ifreq_B_OK [OF assms(1), of SIOCGIFNAME
      "named env ((auto_ifreq env (kernel w))\<lparr>ifr_index := index\<rparr>) []" "kernel w"] assms(2)
  unfolding SetTo_index_def Let_def
  by (auto split: prod.splits)

theorem SetTo_index_failure_keeps_name_witness:
  "errno_set example_env \<and>
   \<not> succeeded (kernel_ifreq example_env SIOCGIFNAME
       (named example_env ((auto_ifreq example_env (kernel example_world))\<lparr>ifr_index := 2\<rparr>) [])
       (kernel example_world)) \<and>
   fst (SetTo_index example_env example_eth9 2 example_world) = 19 \<and>
   fst (snd (SetTo_index example_env example_eth9 2 example_world)) = example_eth9 \<and>
   \<not> succeeded (kernel_ifreq example_env SIOCGIFNAME
       (named example_env
          ((auto_ifreq example_env (kernel example_world_nofile))\<lparr>ifr_index := 1\<rparr>) [])
       (kernel example_world_nofile)) \<and>
   fst (SetTo_index example_env example_eth9 1 example_world_nofile) = 24 \<and>
   fst (snd (SetTo_index example_env example_eth9 1 example_world_nofile)) = example_eth9"
proof -
  have ioctl_fails: "\<not> succeeded (kernel_ifreq example_env SIOCGIFNAME
       (named example_env ((auto_ifreq example_env (kernel example_world))\<lparr>ifr_index := 2\<rparr>) [])
       (kernel example_world))"
    by (simp add: example_defs run_defs)
  have socket_fails: "\<not> succeeded (kernel_ifreq example_env SIOCGIFNAME
       (named example_env
          ((auto_ifreq example_env (kernel example_world_nofile))\<lparr>ifr_index := 1\<rparr>) [])
       (kernel example_world_nofile))"
    by (simp add: example_defs run_defs)
  have status:
    "status_of (kernel_ifreq example_env SIOCGIFNAME
       (named example_env ((auto_ifreq example_env (kernel example_world))\<lparr>ifr_index := 2\<rparr>) [])
       (kernel example_world)) = 19"
    "status_of (kernel_ifreq example_env SIOCGIFNAME
       (named example_env
          ((auto_ifreq example_env (kernel example_world_nofile))\<lparr>ifr_index := 1\<rparr>) [])
       (kernel example_world_nofile)) = 24"
    by (simp_all add: example_defs run_defs)
  show ?thesis
    using SetTo_index_failure_keeps_name [OF example_errno_set ioctl_fails, of example_eth9]
      SetTo_index_failure_keeps_name [OF example_errno_set socket_fails, of example_eth9]
      example_errno_set ioctl_fails socket_fails status
    by simp
qed

section \<open>The index of an address record\<close>

text \<open>
  Claim C10. \<open>BNetworkInterfaceAddress::SetTo(interface, index)\<close> stores the index
  before anything else: the record returned has it whether the call succeeds or not,
  and every request issued carries it. When the call fails (a status other than
  \<open>B_OK\<close>, a socket that cannot be created, a query the kernel refuses), the flags,
  address, mask and broadcast fields are what they were.
\<close>

theorem SetTo_alias_sets_index_first:
  assumes "BNetworkInterfaceAddress_SetTo env this interface index w = (status, this', w')"
  shows
   "fIndex this' = index \<and>
    (\<forall>request option.
       (option, request) \<in> set (alias_requests (issued w w')) \<longrightarrow> ifra_index request = index) \<and>
    (status \<noteq> B_OK \<longrightarrow>
       fFlags this' = fFlags this \<and> fAddress this' = fAddress this \<and>
       fMask this' = fMask this \<and> fBroadcast this' = fBroadcast this) \<and>
    (fst (os_socket env AF_INET SOCK_DGRAM 0 (kernel w)) < 0 \<longrightarrow>
       fFlags this' = fFlags this \<and> fAddress this' = fAddress this \<and>
       fMask this' = fMask this \<and> fBroadcast this' = fBroadcast this) \<and>
    (\<forall>request option.
       (option, request) \<in> set (alias_requests (issued w w')) \<longrightarrow>
       \<not> succeeded (kernel_ifaliasreq env option request (kernel w)) \<longrightarrow>
       fFlags this' = fFlags this \<and> fAddress this' = fAddress this \<and>
       fMask this' = fMask this \<and> fBroadcast this' = fBroadcast this)"
  using assms
  by (auto simp add: BNetworkInterfaceAddress_SetTo_def do_ifaliasreq_def sys_defs issued_def
      kernel_ifaliasreq_def Let_def split: prod.splits if_splits)

theorem SetTo_alias_sets_index_first_witness:
  "fst (BNetworkInterfaceAddress_SetTo example_env example_address example_eth9 3
          example_world) = 19 \<and>
   fst (snd (BNetworkInterfaceAddress_SetTo example_env example_address example_eth9 3
          example_world)) = example_address\<lparr>fIndex := 3\<rparr> \<and>
   fst (os_socket example_env AF_INET SOCK_DGRAM 0 (kernel example_world_nofile)) < 0 \<and>
   fst (snd (BNetworkInterfaceAddress_SetTo example_env example_address example_loop 3
          example_world_nofile)) = example_address\<lparr>fIndex := 3\<rparr>"
  using SetTo_alias_sets_index_first [of example_env example_address example_eth9 3
      example_world, OF triple_collapse]
    SetTo_alias_sets_index_first [of example_env example_address example_loop 3
      example_world_nofile, OF triple_collapse]
  by (intro conjI) (simp_all add: example_defs run_defs BNetworkInterfaceAddress_SetTo_def)

end
